theory Spec2Isabelle
  imports Complex_Main "HOL-Library.Multiset" "HOL-Library.Sublist"
begin

section \<open>Data model: cells, columns, tables\<close>

text \<open>
  The repository is a pandas script (\<^verbatim>\<open>src/preprocessing.py\<close>) and a module of helpers
  (\<^verbatim>\<open>src/utils.py\<close>). A DataFrame is modelled as its row index length together with the
  ordered list of its named columns. A cell is a number, a boolean, a string or the
  missing marker. A number cell holds the stored value exactly, be it an int64 or a
  float64. In the pruning script the float64 comparisons against the literals 0.95, 0.4
  and 0.9 are taken as comparisons of the exact quotients (the two agree unless a
  quotient of two row counts lies within one unit in the last place of the literal,
  which needs more than \<open>10^15\<close> rows). In \<open>detecter_outliers\<close> the conversion of a
  value to float64 and the rounding of each float64 operation are modelled (see
  \<open>float64\<close> below).

  A column has one of three dtypes: \<open>Numeric\<close> (int64 or float64), \<open>Boolean\<close> and
  \<open>Object\<close>. The source asks whether a column is numeric in two ways, which differ on a
  boolean column: \<^verbatim>\<open>is_numeric_dtype\<close> accepts it, \<^verbatim>\<open>select_dtypes(include=np.number)\<close>
  leaves it out.
\<close>

datatype cell = Num real | Bool bool | Str string | NaN

datatype dtype = Numeric | Boolean | Object

datatype column = Column (col_dtype: dtype) (vals: "cell list")

record table =
  nrows :: nat
  columns :: "(string \<times> column) list"

text \<open>The three exceptions the code can raise: the two raised by the helpers, and the
  \<^verbatim>\<open>KeyError\<close> of \<^verbatim>\<open>DataFrame.drop\<close> for a label that is not a column.\<close>

datatype error = ValueError | TypeError | KeyError "string list"

text \<open>The invariant of a DataFrame read from a CSV file: unique column names, every
  column as long as the index, and no string in a numeric column.\<close>

definition wf_table :: "table \<Rightarrow> bool" where
  "wf_table df \<longleftrightarrow>
     distinct (map fst (columns df)) \<and>
     list_all (\<lambda>(name, c). length (vals c) = nrows df) (columns df) \<and>
     list_all (\<lambda>(name, c). col_dtype c = Numeric \<longrightarrow> list_all (\<lambda>v. case v of Str s \<Rightarrow> False | _ \<Rightarrow> True) (vals c))
       (columns df)"

text \<open>\<^verbatim>\<open>df.empty\<close>: one of the two axes has length 0.\<close>

definition df_empty :: "table \<Rightarrow> bool" where
  "df_empty df \<longleftrightarrow> nrows df = 0 \<or> columns df = []"

text \<open>\<^verbatim>\<open>isna()\<close> on one cell, the non-missing values of a column, and \<^verbatim>\<open>isna().sum()\<close>.\<close>

fun isna :: "cell \<Rightarrow> bool" where
  "isna NaN = True"
| "isna _ = False"

definition notna_vals :: "column \<Rightarrow> cell list" where
  "notna_vals c = filter (\<lambda>v. \<not> isna v) (vals c)"

definition isna_sum :: "column \<Rightarrow> nat" where
  "isna_sum c = length (filter isna (vals c))"

text \<open>Rounding to \<open>d\<close> decimals, half to even, as \<^verbatim>\<open>numpy.round\<close> does (on exact reals).\<close>

definition rint :: "real \<Rightarrow> int" where
  "rint x = (let f = \<lfloor>x\<rfloor>; r = x - of_int f
             in if r < 1/2 then f else if 1/2 < r then f + 1
                else if even f then f else f + 1)"

definition round_dec :: "nat \<Rightarrow> real \<Rightarrow> real" where
  "round_dec d x = of_int (rint (x * 10 ^ d)) / 10 ^ d"

section \<open>float64\<close>

text \<open>
  Rounding of a real number to the nearest float64 (53 significant bits, ties to the
  even significand), as the hardware does at a conversion from int64 and after each
  arithmetic operation. \<open>exponent x\<close> is the integer \<open>e\<close> with \<open>2^e \<le> |x| < 2^(e+1)\<close>, and
  the spacing of the float64 numbers around \<open>x\<close> is \<open>2^(e-52)\<close>, but not less than
  \<open>2^-1074\<close>. The infinities, to which the hardware rounds beyond about \<open>1.8 * 10^308\<close>,
  are outside the model.
\<close>

function bit_length :: "int \<Rightarrow> int" where
  "bit_length n = (if n \<le> 0 then 0 else 1 + bit_length (n div 2))"
  by pat_completeness auto
termination
  by (relation "measure nat") auto

declare bit_length.simps [simp del]

definition exponent :: "real \<Rightarrow> int" where
  "exponent x =
     (let a = \<bar>x\<bar>
      in if 1 \<le> a then bit_length \<lfloor>a\<rfloor> - 1
         else - bit_length (\<lceil>1 / a\<rceil> - 1))"

definition pow2 :: "int \<Rightarrow> real" where
  "pow2 k = (if 0 \<le> k then 2 ^ nat k else 1 / 2 ^ nat (- k))"

definition float64 :: "real \<Rightarrow> real" where
  "float64 x =
     (if x = 0 then 0
      else
        let ulp = pow2 (max (exponent x - 52) (- 1074))
        in of_int (rint (x / ulp)) * ulp)"

text \<open>The float64 operations \<^verbatim>\<open>-\<close>, \<^verbatim>\<open>+\<close> and \<^verbatim>\<open>*\<close>: the exact result, rounded.\<close>

definition fsub :: "real \<Rightarrow> real \<Rightarrow> real" where
  "fsub a b = float64 (a - b)"

definition fadd :: "real \<Rightarrow> real \<Rightarrow> real" where
  "fadd a b = float64 (a + b)"

definition fmul :: "real \<Rightarrow> real \<Rightarrow> real" where
  "fmul a b = float64 (a * b)"

section \<open>utils.py: analyser\_nan\<close>

text \<open>
  \<^verbatim>\<open>
  def analyser_nan(df):
      if df.empty:
          print("Dataset vide.")
          return None
      total_nan = df.isna().sum()
      pourcentage = (total_nan / len(df)) * 100
      resume = pd.DataFrame({"Nb_NaN": total_nan, "Pourcentage (%)": pourcentage.round(2)})
      resume = resume[resume["Nb_NaN"] > 0]
      resume = resume.sort_values("Pourcentage (%)", ascending=False)
      return resume
  \<close>
  A row of the report is (column name, Nb\_NaN, Pourcentage). Python's \<^verbatim>\<open>None\<close> is
  \<open>None\<close>, a returned DataFrame \<open>r\<close> is \<open>Some r\<close>; the report with no row is \<open>Some []\<close>.
  The sort is modelled by a stable descending sort; pandas' default quicksort leaves the
  order of equal keys open, and no theorem below depends on it.
\<close>

type_synonym nan_report = "(string \<times> nat \<times> real) list"

definition analyser_nan :: "table \<Rightarrow> nan_report option" where
  "analyser_nan df =
     (if df_empty df then None
      else
        let total_nan = map (\<lambda>(name, c). (name, isna_sum c)) (columns df);
            resume = map (\<lambda>(name, k). (name, k, round_dec 2 (real k / real (nrows df) * 100))) total_nan;
            resume = filter (\<lambda>(name, k, p). k > 0) resume;
            resume = sort_key (\<lambda>(name, k, p). - p) resume
        in Some resume)"

text \<open>A table has no missing value when no cell of any column is the missing marker.\<close>

definition no_missing :: "table \<Rightarrow> bool" where
  "no_missing df \<longleftrightarrow> list_all (\<lambda>(name, c). list_all (\<lambda>v. \<not> isna v) (vals c)) (columns df)"

section \<open>preprocessing.py: the column statistics\<close>

text \<open>A float that may be NaN is a \<open>real option\<close>; every comparison with NaN is false.\<close>

fun float_gt :: "real option \<Rightarrow> real \<Rightarrow> bool" where
  "float_gt None t = False"
| "float_gt (Some x) t = (t < x)"


text \<open>\<^verbatim>\<open>Series.nunique()\<close>: the number of distinct non-missing values.\<close>

definition nunique :: "column \<Rightarrow> nat" where
  "nunique c = length (remdups (notna_vals c))"

text \<open>\<^verbatim>\<open>Series.value_counts(normalize=True)\<close>: missing values are dropped
  (\<^verbatim>\<open>dropna=True\<close> is the default), and each distinct value gets its count divided by
  the number of non-missing values. pandas orders the result by count; only its maximum
  is used.\<close>

definition value_counts_normalize :: "column \<Rightarrow> (cell \<times> real) list" where
  "value_counts_normalize c =
     (let xs = notna_vals c
      in map (\<lambda>v. (v, real (count_list xs v) / real (length xs))) (remdups xs))"

text \<open>\<^verbatim>\<open>Series.max()\<close>: NaN on an empty Series.\<close>

fun series_max :: "real list \<Rightarrow> real option" where
  "series_max [] = None"
| "series_max (x # xs) = Some (fold max xs x)"

text \<open>One column of \<^verbatim>\<open>df.isna().mean()\<close>: the mean of no value is NaN.\<close>

definition isna_mean :: "column \<Rightarrow> real option" where
  "isna_mean c =
     (if vals c = [] then None else Some (real (isna_sum c) / real (length (vals c))))"

section \<open>preprocessing.py: the removal lists\<close>

text \<open>
  Each list is computed from the current \<^verbatim>\<open>df_clean\<close>. \<^verbatim>\<open>df_clean[col]\<close> for
  \<^verbatim>\<open>col in df_clean.columns\<close> is the column stored under that name, which under the
  unique names of \<open>wf_table\<close> is the column paired with it.
  \<^verbatim>\<open>
  constant_cols = [col for col in df_clean.columns if df_clean[col].nunique() <= 1]
  quasi_const_cols = [col for col in df_clean.columns
                      if df_clean[col].value_counts(normalize=True).max() > 0.95]
  cols_to_remove = ['CustomerID', 'LastLoginIP', 'RegistrationDate', 'IP_privee',
                    'Country_encoded', 'UniqueCountries', 'ZeroPriceCount']
  cols_to_remove = [c for c in cols_to_remove if c in df_clean.columns]
  threshold = 0.4
  cols_trop_nan = df_clean.columns[df_clean.isna().mean() > threshold]
  \<close>
\<close>

definition constant_cols :: "table \<Rightarrow> string list" where
  "constant_cols df_clean =
     map fst (filter (\<lambda>(col, c). nunique c \<le> 1) (columns df_clean))"

definition quasi_const_cols :: "table \<Rightarrow> string list" where
  "quasi_const_cols df_clean =
     map fst (filter (\<lambda>(col, c). float_gt (series_max (map snd (value_counts_normalize c))) 0.95)
                (columns df_clean))"

definition denylist :: "string list" where
  "denylist = [''CustomerID'', ''LastLoginIP'', ''RegistrationDate'', ''IP_privee'',
               ''Country_encoded'', ''UniqueCountries'', ''ZeroPriceCount'']"

definition cols_to_remove :: "table \<Rightarrow> string list" where
  "cols_to_remove df_clean = filter (\<lambda>c. c \<in> set (map fst (columns df_clean))) denylist"

definition threshold :: real where
  "threshold = 0.4"

definition cols_trop_nan :: "table \<Rightarrow> string list" where
  "cols_trop_nan df_clean =
     map fst (filter (\<lambda>(col, c). float_gt (isna_mean c) threshold) (columns df_clean))"

text \<open>
  The correlation of two columns is computed by pandas (\<^verbatim>\<open>DataFrame.corr()\<close>, Pearson,
  on the rows where both are present); it is a parameter here, NaN being \<open>None\<close>.
  \<^verbatim>\<open>
  corr_matrix = df_clean.select_dtypes(include=np.number).corr().abs()
  upper_triangle = corr_matrix.where(np.triu(np.ones(corr_matrix.shape), k=1).astype(bool))
  high_corr_cols = [col for col in upper_triangle.columns if any(upper_triangle[col] > 0.9)]
  if "Churn" in high_corr_cols:
      high_corr_cols.remove("Churn")
  \<close>
  A matrix is the list of its rows. \<open>high_corr_flagged\<close> is \<^verbatim>\<open>high_corr_cols\<close> as the
  comprehension builds it, \<open>high_corr_cols\<close> the list after the protection of the target.
\<close>

type_synonym corr_fn = "cell list \<Rightarrow> cell list \<Rightarrow> real option"

definition select_dtypes_number :: "table \<Rightarrow> table" where
  "select_dtypes_number df =
     df\<lparr>columns := filter (\<lambda>(name, c). col_dtype c = Numeric) (columns df)\<rparr>"

definition corr_matrix :: "corr_fn \<Rightarrow> table \<Rightarrow> real option list list" where
  "corr_matrix corr df =
     (let num = columns (select_dtypes_number df)
      in map (\<lambda>(ni, ci). map (\<lambda>(nj, cj). map_option abs (corr (vals ci) (vals cj))) num) num)"

definition upper_triangle :: "real option list list \<Rightarrow> real option list list" where
  "upper_triangle m =
     map (\<lambda>i. map (\<lambda>j. if i < j then m ! i ! j else None) [0..<length m]) [0..<length m]"

definition high_corr_flagged :: "corr_fn \<Rightarrow> table \<Rightarrow> string list" where
  "high_corr_flagged corr df_clean =
     (let names = map fst (columns (select_dtypes_number df_clean));
          ut = upper_triangle (corr_matrix corr df_clean);
          n = length names
      in map (\<lambda>j. names ! j)
           (filter (\<lambda>j. list_ex (\<lambda>i. float_gt (ut ! i ! j) 0.9) [0..<n]) [0..<n]))"

definition high_corr_cols :: "corr_fn \<Rightarrow> table \<Rightarrow> string list" where
  "high_corr_cols corr df_clean =
     (let flagged = high_corr_flagged corr df_clean
      in if ''Churn'' \<in> set flagged then remove1 ''Churn'' flagged else flagged)"

section \<open>preprocessing.py: the script\<close>

text \<open>
  \<^verbatim>\<open>DataFrame.drop(columns=labels)\<close> raises \<^verbatim>\<open>KeyError\<close> when a label is not a
  column, and otherwise removes the named columns; the index is kept.
\<close>

definition drop_columns :: "string list \<Rightarrow> table \<Rightarrow> error + table" where
  "drop_columns labels df =
     (let missing = filter (\<lambda>l. l \<notin> set (map fst (columns df))) labels
      in if missing \<noteq> [] then Inl (KeyError missing)
         else Inr (df\<lparr>columns := filter (\<lambda>(name, c). name \<notin> set labels) (columns df)\<rparr>))"

text \<open>
  The script mutates \<^verbatim>\<open>df_clean\<close> in place (\<^verbatim>\<open>inplace=True\<close>), so DataFrames live in
  a store and the variables \<^verbatim>\<open>df\<close> and \<^verbatim>\<open>df_clean\<close> hold references into it.
  \<^verbatim>\<open>pd.read_csv\<close> allocates the loaded table, \<^verbatim>\<open>df.copy()\<close> allocates a new object
  with the same content (a deep copy is the default), and \<^verbatim>\<open>drop(..., inplace=True)\<close>
  overwrites the object it is called on.
\<close>

type_synonym ref = nat

type_synonym store = "table list"

definition alloc :: "store \<Rightarrow> table \<Rightarrow> store \<times> ref" where
  "alloc s t = (s @ [t], length s)"

definition df_copy :: "store \<Rightarrow> ref \<Rightarrow> store \<times> ref" where
  "df_copy s r = alloc s (s ! r)"

definition drop_inplace :: "store \<Rightarrow> ref \<Rightarrow> string list \<Rightarrow> error + store" where
  "drop_inplace s r labels =
     (case drop_columns labels (s ! r) of
        Inl e \<Rightarrow> Inl e
      | Inr t \<Rightarrow> Inr (s[r := t]))"

record script_state =
  heap :: store
  var_df :: ref
  var_df_clean :: ref

text \<open>
  The script from \<^verbatim>\<open>pd.read_csv\<close> to the last \<^verbatim>\<open>drop\<close>, on the table \<open>raw\<close> read from
  the file and a store \<open>s0\<close> of the objects that already exist. The prints, the creation
  of the output directory and \<^verbatim>\<open>to_csv\<close> do not change a DataFrame.
\<close>

definition preprocessing :: "corr_fn \<Rightarrow> store \<Rightarrow> table \<Rightarrow> error + script_state" where
  "preprocessing corr s0 raw =
     (let (s, df) = alloc s0 raw;
          (s, df_clean) = df_copy s df
      in case drop_inplace s df_clean (constant_cols (s ! df_clean)) of
           Inl e \<Rightarrow> Inl e
         | Inr s \<Rightarrow>
      (case drop_inplace s df_clean (quasi_const_cols (s ! df_clean)) of
           Inl e \<Rightarrow> Inl e
         | Inr s \<Rightarrow>
      (case drop_inplace s df_clean (cols_to_remove (s ! df_clean)) of
           Inl e \<Rightarrow> Inl e
         | Inr s \<Rightarrow>
      (case drop_inplace s df_clean (cols_trop_nan (s ! df_clean)) of
           Inl e \<Rightarrow> Inl e
         | Inr s \<Rightarrow>
      (case drop_inplace s df_clean (high_corr_cols corr (s ! df_clean)) of
           Inl e \<Rightarrow> Inl e
         | Inr s \<Rightarrow> Inr \<lparr>heap = s, var_df = df, var_df_clean = df_clean\<rparr>)))))"

text \<open>The table that \<^verbatim>\<open>df_clean.to_csv\<close> writes: the content of \<^verbatim>\<open>df_clean\<close> at the end.\<close>

definition data_cleaned :: "corr_fn \<Rightarrow> table \<Rightarrow> error + table" where
  "data_cleaned corr raw =
     (case preprocessing corr [] raw of
        Inl e \<Rightarrow> Inl e
      | Inr st \<Rightarrow> Inr (heap st ! var_df_clean st))"

text \<open>The five removals as functions on tables; the script is shown to compute their
  composition.\<close>

definition without :: "string list \<Rightarrow> table \<Rightarrow> table" where
  "without labels t = t\<lparr>columns := filter (\<lambda>(name, c). name \<notin> set labels) (columns t)\<rparr>"

definition stage1 :: "table \<Rightarrow> table" where
  "stage1 t = without (constant_cols t) t"

definition stage2 :: "table \<Rightarrow> table" where
  "stage2 t = (let t1 = stage1 t in without (quasi_const_cols t1) t1)"

definition stage3 :: "table \<Rightarrow> table" where
  "stage3 t = (let t2 = stage2 t in without (cols_to_remove t2) t2)"

definition stage4 :: "table \<Rightarrow> table" where
  "stage4 t = (let t3 = stage3 t in without (cols_trop_nan t3) t3)"

definition stage5 :: "corr_fn \<Rightarrow> table \<Rightarrow> table" where
  "stage5 corr t = (let t4 = stage4 t in without (high_corr_cols corr t4) t4)"

section \<open>utils.py: detecter\_outliers and afficher\_distribution\<close>

text \<open>\<^verbatim>\<open>pd.api.types.is_numeric_dtype(df[colonne])\<close>: true of the int64, float64 and
  boolean dtypes.\<close>

definition is_numeric_dtype :: "column \<Rightarrow> bool" where
  "is_numeric_dtype c \<longleftrightarrow> col_dtype c = Numeric \<or> col_dtype c = Boolean"

text \<open>
  \<^verbatim>\<open>Series.quantile(q)\<close> is computed by pandas and numpy; it is a parameter here. It
  returns a float64 or NaN (\<open>Inr None\<close>), or raises (\<open>Inl\<close>).
\<close>

type_synonym quantile_fn = "column \<Rightarrow> real \<Rightarrow> error + real option"

text \<open>Float arithmetic with NaN: an operation on NaN is NaN.\<close>

fun float_op :: "(real \<Rightarrow> real \<Rightarrow> real) \<Rightarrow> real option \<Rightarrow> real option \<Rightarrow> real option" where
  "float_op f (Some a) (Some b) = Some (f a b)"
| "float_op f _ _ = None"

text \<open>
  The elementwise comparisons \<^verbatim>\<open>df[colonne] < borne_inf\<close> and
  \<^verbatim>\<open>df[colonne] > borne_sup\<close> compare float64 numbers: the bound is a float64, and the
  values of an int64 column are converted to float64 first, which rounds an integer
  beyond \<open>2^53\<close>. A comparison with a missing value or with a NaN bound is false.
\<close>

fun to_float64 :: "cell \<Rightarrow> real option" where
  "to_float64 (Num x) = Some (float64 x)"
| "to_float64 (Bool b) = Some (if b then 1 else 0)"
| "to_float64 (Str s) = None"
| "to_float64 NaN = None"

fun float_lt :: "real option \<Rightarrow> real option \<Rightarrow> bool" where
  "float_lt (Some a) (Some b) = (a < b)"
| "float_lt _ _ = False"

definition cell_lt :: "cell \<Rightarrow> real option \<Rightarrow> bool" where
  "cell_lt v borne = float_lt (to_float64 v) borne"

definition cell_gt :: "cell \<Rightarrow> real option \<Rightarrow> bool" where
  "cell_gt v borne = float_lt borne (to_float64 v)"

text \<open>
  \<^verbatim>\<open>
  def detecter_outliers(df, colonne):
      if colonne not in df.columns:
          raise ValueError("Colonne inexistante.")
      if not pd.api.types.is_numeric_dtype(df[colonne]):
          raise TypeError("La colonne doit etre numerique.")
      Q1 = df[colonne].quantile(0.25)
      Q3 = df[colonne].quantile(0.75)
      IQR = Q3 - Q1
      borne_inf = Q1 - 1.5 * IQR
      borne_sup = Q3 + 1.5 * IQR
      outliers = df[(df[colonne] < borne_inf) | (df[colonne] > borne_sup)]
      print(f"Nombre d'outliers : {len(outliers)}")
      return len(outliers), borne_inf, borne_sup
  \<close>
  \<open>map_of\<close> is the lookup \<^verbatim>\<open>df[colonne]\<close>, which finds nothing exactly when the name is
  not in \<^verbatim>\<open>df.columns\<close>. There is no \<^verbatim>\<open>try\<close> in the function: an exception of
  \<^verbatim>\<open>quantile\<close> ends it and reaches the caller. \<^verbatim>\<open>outliers\<close> is the list of the row
  positions that the boolean mask selects.
\<close>

definition detecter_outliers ::
  "quantile_fn \<Rightarrow> table \<Rightarrow> string \<Rightarrow> error + (nat \<times> real option \<times> real option)" where
  "detecter_outliers quantile df colonne =
     (case map_of (columns df) colonne of
        None \<Rightarrow> Inl ValueError
      | Some c \<Rightarrow>
          if \<not> is_numeric_dtype c then Inl TypeError
          else
            (case quantile c 0.25 of
               Inl e \<Rightarrow> Inl e
             | Inr Q1 \<Rightarrow>
            (case quantile c 0.75 of
               Inl e \<Rightarrow> Inl e
             | Inr Q3 \<Rightarrow>
                 let IQR = float_op fsub Q3 Q1;
                     borne_inf = float_op fsub Q1 (float_op fmul (Some 1.5) IQR);
                     borne_sup = float_op fadd Q3 (float_op fmul (Some 1.5) IQR);
                     mask = map (\<lambda>v. cell_lt v borne_inf \<or> cell_gt v borne_sup) (vals c);
                     outliers = filter (\<lambda>i. mask ! i) [0..<length mask]
                 in Inr (length outliers, borne_inf, borne_sup))))"

text \<open>
  \<^verbatim>\<open>
  def afficher_distribution(df, colonne, bins=30):
      if colonne not in df.columns:
          raise ValueError("Colonne non trouvee.")
      if not pd.api.types.is_numeric_dtype(df[colonne]):
          raise TypeError("Colonne non numerique.")
      fig, axes = plt.subplots(1, 2, figsize=(12, 4))
      sns.histplot(df[colonne], bins=bins, kde=True, ax=axes[0])
      axes[0].set_title(f"Histogramme - {colonne}")
      sns.boxplot(x=df[colonne], ax=axes[1])
      axes[1].set_title(f"Boxplot - {colonne}")
      plt.tight_layout()
      plt.show()
  \<close>
  The calls of matplotlib and seaborn after the two checks are the parameter \<open>draw\<close>: from
  the column and \<^verbatim>\<open>bins\<close> they either draw (\<open>None\<close>) or raise. There is no \<^verbatim>\<open>try\<close>
  in the function, so what they raise reaches the caller.
\<close>

type_synonym draw_fn = "column \<Rightarrow> int \<Rightarrow> error option"

definition afficher_distribution :: "draw_fn \<Rightarrow> table \<Rightarrow> string \<Rightarrow> int \<Rightarrow> error + unit" where
  "afficher_distribution draw df colonne bins =
     (case map_of (columns df) colonne of
        None \<Rightarrow> Inl ValueError
      | Some c \<Rightarrow>
          if \<not> is_numeric_dtype c then Inl TypeError
          else (case draw c bins of Some e \<Rightarrow> Inl e | None \<Rightarrow> Inr ()))"

section \<open>utils.py: analyser\_correlation\<close>




section \<open>The quasi-constant criterion in the words of the specification\<close>

text \<open>The specification's glossary calls a column quasi-constant when its most frequent
  value covers more than 0.95 of all rows, that is, when some value does.\<close>

definition spec_quasi_constant :: "column \<Rightarrow> bool" where
  "spec_quasi_constant c \<longleftrightarrow>
     list_ex (\<lambda>v. 0.95 < real (count_list (vals c) v) / real (length (vals c))) (vals c)"

section \<open>The outlier count in the words of the claim\<close>

text \<open>The number of rows whose value lies strictly below the lower bound or strictly
  above the upper bound; a row with a missing value is not counted.\<close>

definition spec_outlier_count :: "column \<Rightarrow> real \<Rightarrow> real \<Rightarrow> nat" where
  "spec_outlier_count c lo hi =
     length (filter (\<lambda>v. case v of Num x \<Rightarrow> x < lo \<or> hi < x | _ \<Rightarrow> False) (vals c))"

section \<open>The correlation report in the words of the specification\<close>




section \<open>Example tables\<close>

definition ex_empty :: table where
  "ex_empty = \<lparr>nrows = 0, columns = [(''Age'', Column Numeric [])]\<rparr>"

definition ex_full :: table where
  "ex_full = \<lparr>nrows = 2, columns =
     [(''Age'', Column Numeric [Num 30, Num 41]),
      (''City'', Column Object [Str ''Tunis'', Str ''Sfax''])]\<rparr>"

text \<open>Six columns of three customers, and a correlation under which every pair of
  non-empty columns is perfectly correlated.\<close>

definition ex_retail :: table where
  "ex_retail = \<lparr>nrows = 3, columns =
     [(''CustomerID'', Column Numeric [Num 1, Num 2, Num 3]),
      (''Age'', Column Numeric [Num 30, Num 41, Num 52]),
      (''Country'', Column Object [Str ''TN'', Str ''TN'', Str ''TN'']),
      (''City'', Column Object [Str ''Tunis'', NaN, Str ''Sfax'']),
      (''Spend'', Column Numeric [Num 10, Num 20, Num 30]),
      (''Churn'', Column Numeric [Num 0, Num 1, Num 1])]\<rparr>"

definition ex_corr :: corr_fn where
  "ex_corr a b = (if a = [] \<or> b = [] then None else Some 1)"

text \<open>A table with no numeric column.\<close>

definition ex_objects :: table where
  "ex_objects = \<lparr>nrows = 2, columns =
     [(''City'', Column Object [Str ''Tunis'', Str ''Sfax'']),
      (''Segment'', Column Object [Str ''A'', NaN])]\<rparr>"

text \<open>One hundred rows: one value on 96 rows of the first column and on 95 rows of the
  second.\<close>

definition ex_promo :: column where
  "ex_promo = Column Object (replicate 96 (Str ''no'') @ replicate 4 (Str ''yes''))"

definition ex_gift :: column where
  "ex_gift = Column Object (replicate 95 (Str ''no'') @ replicate 5 (Str ''yes''))"

definition ex_quasi :: table where
  "ex_quasi = \<lparr>nrows = 100, columns = [(''Promo'', ex_promo), (''Gift'', ex_gift)]\<rparr>"

text \<open>Twenty-two rows: one value on 20 rows, another on one row, and one missing.\<close>

definition ex_flag :: column where
  "ex_flag = Column Object (replicate 20 (Str ''no'') @ [Str ''yes'', NaN])"

definition ex_quasi_nan :: table where
  "ex_quasi_nan = \<lparr>nrows = 22, columns = [(''Flag'', ex_flag)]\<rparr>"

text \<open>A numeric column whose quartiles are 1 and 3, so that the bounds are -2 and 6:
  it holds both bounds, one value above the upper bound and a missing value.\<close>

definition ex_amount :: column where
  "ex_amount = Column Numeric
     [Num (-2), Num 1, Num 1, NaN, Num 1, Num 1, Num 3, Num 3, Num 3, Num 3, Num 6, Num 7]"

definition ex_outliers :: table where
  "ex_outliers = \<lparr>nrows = 12, columns =
     [(''Amount'', ex_amount),
      (''City'', Column Object (replicate 12 (Str ''Tunis'')))]\<rparr>"

text \<open>An int64 column of five identifiers: four times \<open>2^53\<close> and once \<open>2^53 + 1\<close>.\<close>

definition ex_ids :: column where
  "ex_ids = Column Numeric
     [Num 9007199254740992, Num 9007199254740992, Num 9007199254740992,
      Num 9007199254740992, Num 9007199254740993]"

definition ex_big :: table where
  "ex_big = \<lparr>nrows = 5, columns = [(''Id'', ex_ids)]\<rparr>"

text \<open>A table with a boolean column.\<close>

definition ex_active :: column where
  "ex_active = Column Boolean [Bool True, Bool False, Bool True]"

definition ex_flags :: table where
  "ex_flags = \<lparr>nrows = 3, columns =
     [(''Active'', ex_active), (''Age'', Column Numeric [Num 30, Num 41, Num 52])]\<rparr>"

text \<open>
  Instances of the two library parameters for the examples. \<open>ex_quantile\<close> raises
  \<^verbatim>\<open>TypeError\<close> on a boolean column, as pandas' \<^verbatim>\<open>quantile\<close> does, and otherwise
  interpolates linearly between the sorted float64 values at the position \<open>q * (n - 1)\<close>
  with numpy's formula, every operation rounded. \<open>ex_draw\<close> raises \<^verbatim>\<open>ValueError\<close>
  where seaborn's histogram does on these examples: for zero bins and for a column with
  no value.
\<close>

fun floats :: "cell list \<Rightarrow> real list" where
  "floats [] = []"
| "floats (v # vs) = (case to_float64 v of None \<Rightarrow> floats vs | Some x \<Rightarrow> x # floats vs)"

definition lerp :: "real \<Rightarrow> real \<Rightarrow> real \<Rightarrow> real" where
  "lerp a b t =
     (if 1/2 \<le> t then fsub b (fmul (fsub b a) (fsub 1 t)) else fadd a (fmul (fsub b a) t))"

definition ex_quantile :: quantile_fn where
  "ex_quantile c q =
     (if col_dtype c = Boolean then Inl TypeError
      else
        let xs = sort (floats (vals c)); n = length xs
        in if n = 0 then Inr None
           else
             let pos = q * real (n - 1); lo = nat \<lfloor>pos\<rfloor>; hi = min (lo + 1) (n - 1)
             in Inr (Some (lerp (xs ! lo) (xs ! hi) (pos - real lo))))"

definition ex_draw :: draw_fn where
  "ex_draw c bins = (if bins = 0 \<or> notna_vals c = [] then Some ValueError else None)"



section \<open>Theorems\<close>

subsection \<open>The script computes the composition of the five removals\<close>

lemma constant_cols_names: "set (constant_cols t) \<subseteq> fst ` set (columns t)"
  by (auto simp: constant_cols_def)

lemma quasi_const_cols_names: "set (quasi_const_cols t) \<subseteq> fst ` set (columns t)"
  by (auto simp: quasi_const_cols_def)

lemma cols_to_remove_names: "set (cols_to_remove t) \<subseteq> fst ` set (columns t)"
  by (auto simp: cols_to_remove_def)

lemma cols_trop_nan_names: "set (cols_trop_nan t) \<subseteq> fst ` set (columns t)"
  by (auto simp: cols_trop_nan_def)

lemma nth_filter_upt_subset:
  "set (map (\<lambda>j. names ! j) (filter P [0..<length names])) \<subseteq> set names"
  by auto

lemma high_corr_flagged_names:
  "set (high_corr_flagged corr t) \<subseteq> fst ` set (columns (select_dtypes_number t))"
  unfolding high_corr_flagged_def Let_def
  using nth_filter_upt_subset [of "map fst (columns (select_dtypes_number t))"]
  by (simp only: list.set_map)

lemma select_dtypes_number_names:
  "fst ` set (columns (select_dtypes_number t)) \<subseteq> fst ` set (columns t)"
  by (auto simp: select_dtypes_number_def)

lemma high_corr_cols_flagged: "set (high_corr_cols corr t) \<subseteq> set (high_corr_flagged corr t)"
  using set_remove1_subset [of "''Churn''" "high_corr_flagged corr t"]
  by (auto simp: high_corr_cols_def Let_def)

lemma high_corr_cols_names: "set (high_corr_cols corr t) \<subseteq> fst ` set (columns t)"
  using high_corr_cols_flagged high_corr_flagged_names select_dtypes_number_names
  by blast

lemma drop_columns_ok:
  "set labels \<subseteq> fst ` set (columns t) \<Longrightarrow> drop_columns labels t = Inr (without labels t)"
  by (auto simp: drop_columns_def without_def Let_def filter_empty_conv)

lemma drop_inplace_ok:
  "set labels \<subseteq> fst ` set (columns (s ! r)) \<Longrightarrow>
   drop_inplace s r labels = Inr (s[r := without labels (s ! r)])"
  by (simp add: drop_inplace_def drop_columns_ok)

lemma preprocessing_eq:
  "preprocessing corr s0 raw =
     Inr \<lparr>heap = s0 @ [raw, stage5 corr raw], var_df = length s0, var_df_clean = Suc (length s0)\<rparr>"
proof -
  let ?n = "Suc (length s0)"
  let ?s = "s0 @ [raw, raw]"
  have upd: "(s0 @ [raw, a])[?n := b] = s0 @ [raw, b]" for a b
    by (simp add: list_update_append)
  have rd: "(s0 @ [raw, a]) ! ?n = a" for a
    by (simp add: nth_append)
  have d1: "drop_inplace (s0 @ [raw, raw]) ?n (constant_cols raw) = Inr (s0 @ [raw, stage1 raw])"
    using drop_inplace_ok [of "constant_cols raw" "s0 @ [raw, raw]" ?n] constant_cols_names [of raw]
    by (simp only: rd upd stage1_def)
  have d2: "drop_inplace (s0 @ [raw, stage1 raw]) ?n (quasi_const_cols (stage1 raw)) = Inr (s0 @ [raw, stage2 raw])"
    using drop_inplace_ok [of "quasi_const_cols (stage1 raw)" "s0 @ [raw, stage1 raw]" ?n]
      quasi_const_cols_names [of "stage1 raw"]
    by (simp only: rd upd stage2_def Let_def)
  have d3: "drop_inplace (s0 @ [raw, stage2 raw]) ?n (cols_to_remove (stage2 raw)) = Inr (s0 @ [raw, stage3 raw])"
    using drop_inplace_ok [of "cols_to_remove (stage2 raw)" "s0 @ [raw, stage2 raw]" ?n]
      cols_to_remove_names [of "stage2 raw"]
    by (simp only: rd upd stage3_def Let_def)
  have d4: "drop_inplace (s0 @ [raw, stage3 raw]) ?n (cols_trop_nan (stage3 raw)) = Inr (s0 @ [raw, stage4 raw])"
    using drop_inplace_ok [of "cols_trop_nan (stage3 raw)" "s0 @ [raw, stage3 raw]" ?n]
      cols_trop_nan_names [of "stage3 raw"]
    by (simp only: rd upd stage4_def Let_def)
  have d5: "drop_inplace (s0 @ [raw, stage4 raw]) ?n (high_corr_cols corr (stage4 raw)) = Inr (s0 @ [raw, stage5 corr raw])"
    using drop_inplace_ok [of "high_corr_cols corr (stage4 raw)" "s0 @ [raw, stage4 raw]" ?n]
      high_corr_cols_names [of corr "stage4 raw"]
    by (simp only: rd upd stage5_def Let_def)
  have cp: "df_copy (s0 @ [raw]) (length s0) = (s0 @ [raw, raw], ?n)"
    by (simp add: df_copy_def alloc_def)
  show ?thesis
    unfolding preprocessing_def
    by (simp only: alloc_def Let_def prod.case cp rd d1 d2 d3 d4 d5 sum.case)
qed

lemma data_cleaned_eq: "data_cleaned corr raw = Inr (stage5 corr raw)"
  by (simp add: data_cleaned_def preprocessing_eq)

subsection \<open>Properties of the pruning script\<close>

lemma nrows_without: "nrows (without labels t) = nrows t"
  by (simp add: without_def)

lemma subseq_without: "subseq (columns (without labels t)) (columns t)"
  by (simp add: without_def)

lemma nrows_stage4: "nrows (stage4 t) = nrows t"
  by (simp add: stage4_def stage3_def stage2_def stage1_def Let_def nrows_without)

lemma nrows_stage5: "nrows (stage5 corr t) = nrows t"
  by (simp add: stage5_def Let_def nrows_without nrows_stage4)

lemma subseq_stage1: "subseq (columns (stage1 t)) (columns t)"
  by (simp add: stage1_def subseq_without)

lemma subseq_stage2: "subseq (columns (stage2 t)) (columns (stage1 t))"
  by (simp add: stage2_def Let_def subseq_without)

lemma subseq_stage3: "subseq (columns (stage3 t)) (columns (stage2 t))"
  by (simp add: stage3_def Let_def subseq_without)

lemma subseq_stage4: "subseq (columns (stage4 t)) (columns (stage3 t))"
  by (simp add: stage4_def Let_def subseq_without)

lemma subseq_stage5: "subseq (columns (stage5 corr t)) (columns (stage4 t))"
  by (simp add: stage5_def Let_def subseq_without)

lemma subseq_stage5_raw: "subseq (columns (stage5 corr t)) (columns t)"
  using subseq_stage1 [of t] subseq_stage2 [of t] subseq_stage3 [of t] subseq_stage4 [of t]
    subseq_stage5 [of corr t]
  by (meson subseq_order.trans)

lemma set_without: "set (columns (without labels t)) \<subseteq> set (columns t)"
  by (auto simp: without_def)

lemma set_stage4: "set (columns (stage4 t)) \<subseteq> set (columns t)"
  unfolding stage4_def stage3_def stage2_def stage1_def Let_def
  by (meson set_without subset_trans)

lemma set_stage5: "set (columns (stage5 corr t)) \<subseteq> set (columns t)"
  unfolding stage5_def Let_def
  by (meson set_without set_stage4 subset_trans)

lemma wf_without: "wf_table t \<Longrightarrow> wf_table (without labels t)"
  by (auto simp: wf_table_def without_def distinct_map_filter list_all_iff)

lemma wf_stage4: "wf_table t \<Longrightarrow> wf_table (stage4 t)"
  by (simp add: stage4_def stage3_def stage2_def stage1_def Let_def wf_without)

lemma wf_stage5: "wf_table t \<Longrightarrow> wf_table (stage5 corr t)"
  by (simp add: stage5_def Let_def wf_without wf_stage4)

text \<open>
  C4. For every input Table the script ends without an exception, and the table it
  leaves in \<^verbatim>\<open>df_clean\<close> has the row count of the input and a list of columns that is
  a subsequence of the input's: every surviving column keeps its name, its position
  relative to the others and all its values, and no column is added or renamed.
\<close>

theorem prune_subset_rows:
  assumes "wf_table raw"
  shows "\<exists>out. data_cleaned corr raw = Inr out \<and>
           nrows out = nrows raw \<and>
           subseq (columns out) (columns raw) \<and>
           set (columns out) \<subseteq> set (columns raw) \<and>
           set (map fst (columns out)) \<subseteq> set (map fst (columns raw)) \<and>
           wf_table out"
proof (intro exI conjI)
  show "data_cleaned corr raw = Inr (stage5 corr raw)"
    by (rule data_cleaned_eq)
  show "nrows (stage5 corr raw) = nrows raw"
    by (rule nrows_stage5)
  show "subseq (columns (stage5 corr raw)) (columns raw)"
    by (rule subseq_stage5_raw)
  show sub: "set (columns (stage5 corr raw)) \<subseteq> set (columns raw)"
    by (rule set_stage5)
  from sub show "set (map fst (columns (stage5 corr raw))) \<subseteq> set (map fst (columns raw))"
    by auto
  from assms show "wf_table (stage5 corr raw)"
    by (rule wf_stage5)
qed

text \<open>
  C5. After the script has run, the object that \<^verbatim>\<open>df\<close> refers to, the table the script
  was handed, still holds the input table: \<^verbatim>\<open>df_clean\<close> is another object, all five
  removals are applied to it, and no object that existed before is touched either.
\<close>

theorem preprocessing_frame:
  assumes "wf_table raw"
  shows "\<exists>st. preprocessing corr s0 raw = Inr st \<and>
           heap st ! var_df st = raw \<and>
           var_df_clean st \<noteq> var_df st \<and>
           (\<forall>r < length s0. heap st ! r = s0 ! r)"
proof (intro exI conjI)
  let ?st = "\<lparr>heap = s0 @ [raw, stage5 corr raw], var_df = length s0, var_df_clean = Suc (length s0)\<rparr>"
  show "preprocessing corr s0 raw = Inr ?st"
    by (rule preprocessing_eq)
  show "heap ?st ! var_df ?st = raw"
    by simp
  show "var_df_clean ?st \<noteq> var_df ?st"
    by simp
  show "\<forall>r < length s0. heap ?st ! r = s0 ! r"
    by (simp add: nth_append)
qed

lemma columns_without_Nil: "columns t = [] \<Longrightarrow> columns (without labels t) = []"
  by (simp add: without_def)

lemma nunique_Nil: "vals c = [] \<Longrightarrow> nunique c = 0"
  by (simp add: nunique_def notna_vals_def)

lemma stage1_zero_rows:
  assumes "wf_table t" and "nrows t = 0"
  shows "columns (stage1 t) = []"
proof -
  have "nunique c \<le> 1" if "(name, c) \<in> set (columns t)" for name c
    using that assms by (auto simp: wf_table_def list_all_iff nunique_Nil)
  then have "name \<in> set (constant_cols t)" if "(name, c) \<in> set (columns t)" for name c
    using that by (force simp: constant_cols_def)
  then show ?thesis
    by (auto simp: stage1_def without_def filter_empty_conv)
qed

lemma stage5_Nil:
  assumes "columns (stage1 t) = []"
  shows "stage5 corr t = \<lparr>nrows = nrows t, columns = []\<rparr>"
proof -
  have "columns (stage5 corr t) = []"
    using assms by (simp add: stage5_def stage4_def stage3_def stage2_def Let_def columns_without_Nil)
  moreover have "nrows (stage5 corr t) = nrows t"
    by (rule nrows_stage5)
  ultimately show ?thesis by simp
qed

lemma high_corr_cols_no_numeric:
  assumes "list_all (\<lambda>(name, c). col_dtype c \<noteq> Numeric) (columns t)"
  shows "high_corr_cols corr t = []"
proof -
  have "columns (select_dtypes_number t) = []"
    using assms by (auto simp: select_dtypes_number_def list_all_iff filter_empty_conv)
  then have "high_corr_flagged corr t = []"
    by (simp add: high_corr_flagged_def)
  then show ?thesis
    by (simp add: high_corr_cols_def)
qed

lemma drop_columns_Nil: "drop_columns [] t = Inr t"
  by (simp add: drop_columns_def)

text \<open>
  C6. On an input Table with no column or no row the script ends without an exception and
  leaves a table with no column (and the input's index). And on every table with no
  numeric column the removal list of the high-correlation step is empty and its
  \<^verbatim>\<open>drop\<close> returns the table unchanged, without an exception.
\<close>

theorem prune_empty_input:
  "(wf_table raw \<and> (columns raw = [] \<or> nrows raw = 0) \<longrightarrow>
      data_cleaned corr raw = Inr \<lparr>nrows = nrows raw, columns = []\<rparr>) \<and>
   (list_all (\<lambda>(name, c). col_dtype c \<noteq> Numeric) (columns t) \<longrightarrow>
      high_corr_cols corr t = [] \<and> drop_columns (high_corr_cols corr t) t = Inr t)"
proof (intro conjI impI)
  assume a: "wf_table raw \<and> (columns raw = [] \<or> nrows raw = 0)"
  have "columns (stage1 raw) = []"
  proof (cases "columns raw = []")
    case True
    then show ?thesis by (simp add: stage1_def columns_without_Nil)
  next
    case False
    with a show ?thesis by (simp add: stage1_zero_rows)
  qed
  then show "data_cleaned corr raw = Inr \<lparr>nrows = nrows raw, columns = []\<rparr>"
    by (simp add: data_cleaned_eq stage5_Nil)
next
  assume b: "list_all (\<lambda>(name, c). col_dtype c \<noteq> Numeric) (columns t)"
  then show "high_corr_cols corr t = []"
    by (rule high_corr_cols_no_numeric)
  with b show "drop_columns (high_corr_cols corr t) t = Inr t"
    by (simp add: drop_columns_Nil)
qed


lemma without_filter_survivor:
  assumes "(name, c) \<in> set (columns (without (map fst (filter P (columns t))) t))"
  shows "(name, c) \<in> set (columns t) \<and> \<not> P (name, c)"
  using assms by (force simp: without_def)

lemma stage1_survivor:
  "(name, c) \<in> set (columns (stage1 t)) \<Longrightarrow> 1 < nunique c"
  unfolding stage1_def constant_cols_def
  by (drule without_filter_survivor) auto

lemma stage2_survivor:
  "(name, c) \<in> set (columns (stage2 t)) \<Longrightarrow>
     (name, c) \<in> set (columns (stage1 t)) \<and>
     \<not> float_gt (series_max (map snd (value_counts_normalize c))) 0.95"
  unfolding stage2_def quasi_const_cols_def Let_def
  by (drule without_filter_survivor) auto

lemma stage4_survivor:
  "(name, c) \<in> set (columns (stage4 t)) \<Longrightarrow>
     (name, c) \<in> set (columns (stage3 t)) \<and> \<not> float_gt (isna_mean c) threshold"
  unfolding stage4_def cols_trop_nan_def Let_def
  by (drule without_filter_survivor) auto

lemma stage3_sub: "set (columns (stage3 t)) \<subseteq> set (columns (stage2 t))"
  by (simp add: stage3_def Let_def set_without)

lemma stage5_sub: "set (columns (stage5 corr t)) \<subseteq> set (columns (stage4 t))"
  by (simp add: stage5_def Let_def set_without)

lemma stage5_survivor:
  assumes "(name, c) \<in> set (columns (stage5 corr t))"
  shows "1 < nunique c"
    and "\<not> float_gt (series_max (map snd (value_counts_normalize c))) 0.95"
    and "\<not> float_gt (isna_mean c) threshold"
proof -
  from assms have s4: "(name, c) \<in> set (columns (stage4 t))"
    using stage5_sub by blast
  then have s3: "(name, c) \<in> set (columns (stage3 t))"
    and n: "\<not> float_gt (isna_mean c) threshold"
    using stage4_survivor by blast+
  from s3 have s2: "(name, c) \<in> set (columns (stage2 t))"
    using stage3_sub by blast
  then have s1: "(name, c) \<in> set (columns (stage1 t))"
    and q: "\<not> float_gt (series_max (map snd (value_counts_normalize c))) 0.95"
    using stage2_survivor by blast+
  from s1 show "1 < nunique c" by (rule stage1_survivor)
  from q show "\<not> float_gt (series_max (map snd (value_counts_normalize c))) 0.95" .
  from n show "\<not> float_gt (isna_mean c) threshold" .
qed

lemma less_fold_max:
  "t < fold max ys (y::real) \<longleftrightarrow> t < y \<or> (\<exists>x\<in>set ys. t < x)"
  by (induction ys arbitrary: y) (auto simp: less_max_iff_disj)

lemma float_gt_series_max: "float_gt (series_max xs) t \<longleftrightarrow> (\<exists>x\<in>set xs. t < x)"
  by (cases xs) (simp_all add: less_fold_max)

lemma quasi_const_iff:
  "float_gt (series_max (map snd (value_counts_normalize c))) t \<longleftrightarrow>
     (\<exists>v\<in>set (notna_vals c). t < real (count_list (notna_vals c) v) / real (length (notna_vals c)))"
  by (simp add: float_gt_series_max value_counts_normalize_def Let_def)

text \<open>
  C8. On the table the script leaves, the removal lists of the constant-column,
  quasi-constant and high-missingness filters are all empty, so running these filters
  again removes nothing: every surviving column has at least two distinct values, no
  value of it covers more than 0.95 of its non-missing values (hence of its rows), and
  at most 0.4 of its rows are missing.
\<close>

theorem prune_idempotent:
  assumes "wf_table raw"
  shows "\<exists>out. data_cleaned corr raw = Inr out \<and>
           constant_cols out = [] \<and> quasi_const_cols out = [] \<and> cols_trop_nan out = [] \<and>
           (\<forall>(name, c) \<in> set (columns out).
               2 \<le> nunique c \<and>
               (\<forall>v \<in> set (notna_vals c).
                   real (count_list (notna_vals c) v) / real (length (notna_vals c)) \<le> 0.95) \<and>
               real (isna_sum c) / real (nrows out) \<le> 0.4)"
proof (intro exI conjI)
  let ?out = "stage5 corr raw"
  show "data_cleaned corr raw = Inr ?out"
    by (rule data_cleaned_eq)
  show "constant_cols ?out = []"
    using stage5_survivor(1) [of _ _ corr raw]
    by (fastforce simp: constant_cols_def filter_empty_conv)
  show "quasi_const_cols ?out = []"
    using stage5_survivor(2) [of _ _ corr raw]
    by (fastforce simp: quasi_const_cols_def filter_empty_conv)
  show "cols_trop_nan ?out = []"
    using stage5_survivor(3) [of _ _ corr raw]
    by (fastforce simp: cols_trop_nan_def filter_empty_conv)
  have wf: "wf_table ?out"
    using assms by (rule wf_stage5)
  show "\<forall>(name, c) \<in> set (columns ?out).
               2 \<le> nunique c \<and>
               (\<forall>v \<in> set (notna_vals c).
                   real (count_list (notna_vals c) v) / real (length (notna_vals c)) \<le> 0.95) \<and>
               real (isna_sum c) / real (nrows ?out) \<le> 0.4"
  proof (clarify, intro conjI)
    fix name c
    assume mem: "(name, c) \<in> set (columns ?out)"
    from mem show u: "2 \<le> nunique c"
      using stage5_survivor(1) [of name c corr raw] by simp
    from mem have "\<not> float_gt (series_max (map snd (value_counts_normalize c))) 0.95"
      by (rule stage5_survivor(2))
    then show "\<forall>v \<in> set (notna_vals c).
        real (count_list (notna_vals c) v) / real (length (notna_vals c)) \<le> 0.95"
      by (simp add: quasi_const_iff not_less)
    from u have ne: "vals c \<noteq> []"
      by (auto simp: nunique_Nil)
    from mem wf have len: "length (vals c) = nrows ?out"
      by (auto simp: wf_table_def list_all_iff)
    from mem have "\<not> float_gt (isna_mean c) threshold"
      by (rule stage5_survivor(3))
    with ne len show "real (isna_sum c) / real (nrows ?out) \<le> 0.4"
      by (simp add: isna_mean_def threshold_def not_less)
  qed
qed

lemma names_drop_columns:
  "\<exists>t'. drop_columns (quasi_const_cols t) t = Inr t' \<and>
      set (map fst (columns t')) = set (map fst (columns t)) - set (quasi_const_cols t)"
proof -
  have "drop_columns (quasi_const_cols t) t = Inr (without (quasi_const_cols t) t)"
    using quasi_const_cols_names by (rule drop_columns_ok)
  moreover have "set (map fst (columns (without l t))) = set (map fst (columns t)) - set l" for l
    by (force simp: without_def)
  ultimately show ?thesis by blast
qed

text \<open>
  C2 (as the code has it). The quasi-constant filter lists a column name exactly when
  some value of that column covers more than 0.95 of the column's non-missing values
  (\<^verbatim>\<open>value_counts\<close> leaves missing values out of the counts and of the total). For a
  column with no missing value this is the share of all rows: 96 rows of 100 are
  removed, 95 rows of 100 are not. The \<^verbatim>\<open>drop\<close> that follows removes exactly the listed
  names.
\<close>

theorem quasi_const_cols_iff:
  "(col \<in> set (quasi_const_cols t) \<longleftrightarrow>
      (\<exists>c. (col, c) \<in> set (columns t) \<and>
           (\<exists>v\<in>set (notna_vals c).
               0.95 < real (count_list (notna_vals c) v) / real (length (notna_vals c))))) \<and>
   (wf_table t \<and> (col, c) \<in> set (columns t) \<and> list_all (\<lambda>v. \<not> isna v) (vals c) \<longrightarrow>
      (col \<in> set (quasi_const_cols t) \<longleftrightarrow>
         (\<exists>v\<in>set (vals c). 0.95 < real (count_list (vals c) v) / real (nrows t)))) \<and>
   (\<exists>t'. drop_columns (quasi_const_cols t) t = Inr t' \<and>
      set (map fst (columns t')) = set (map fst (columns t)) - set (quasi_const_cols t))"
proof (intro conjI impI)
  show g: "col \<in> set (quasi_const_cols t) \<longleftrightarrow>
      (\<exists>c. (col, c) \<in> set (columns t) \<and>
           (\<exists>v\<in>set (notna_vals c).
               0.95 < real (count_list (notna_vals c) v) / real (length (notna_vals c))))" for col
    unfolding quasi_const_cols_def
    by (force simp: quasi_const_iff)
  show "\<exists>t'. drop_columns (quasi_const_cols t) t = Inr t' \<and>
      set (map fst (columns t')) = set (map fst (columns t)) - set (quasi_const_cols t)"
    by (rule names_drop_columns)
  assume a: "wf_table t \<and> (col, c) \<in> set (columns t) \<and> list_all (\<lambda>v. \<not> isna v) (vals c)"
  then have nn: "notna_vals c = vals c"
    by (simp add: notna_vals_def list_all_iff)
  from a have len: "length (vals c) = nrows t"
    by (auto simp: wf_table_def list_all_iff)
  from a have uniq: "c' = c" if "(col, c') \<in> set (columns t)" for c'
    using that by (auto simp: wf_table_def dest: eq_key_imp_eq_value)
  show "col \<in> set (quasi_const_cols t) \<longleftrightarrow>
         (\<exists>v\<in>set (vals c). 0.95 < real (count_list (vals c) v) / real (nrows t))"
    using a uniq nn len g [of col] by metis
qed

lemma distinct_high_corr_flagged:
  assumes "distinct (map fst (columns t))"
  shows "distinct (high_corr_flagged corr t)"
proof -
  let ?names = "map fst (columns (select_dtypes_number t))"
  have "distinct ?names"
    using assms by (simp add: select_dtypes_number_def distinct_map_filter)
  then have "distinct (map (\<lambda>j. ?names ! j) [0..<length ?names])"
    using map_nth [of ?names] by (simp only:)
  then show ?thesis
    unfolding high_corr_flagged_def Let_def
    by (rule distinct_map_filter)
qed

text \<open>
  C3. For every Table (with unique column names) and whatever the correlations are,
  \<^verbatim>\<open>"Churn"\<close> is not in the removal list of the high-correlation filter, and a column
  named \<^verbatim>\<open>"Churn"\<close> is still in the table after the filter's \<^verbatim>\<open>drop\<close>.
\<close>

theorem churn_protected:
  assumes "distinct (map fst (columns t))"
  shows "''Churn'' \<notin> set (high_corr_cols corr t) \<and>
         (\<exists>t'. drop_columns (high_corr_cols corr t) t = Inr t' \<and>
               (\<forall>c. (''Churn'', c) \<in> set (columns t) \<longrightarrow> (''Churn'', c) \<in> set (columns t')))"
proof -
  have d: "distinct (high_corr_flagged corr t)"
    using assms by (rule distinct_high_corr_flagged)
  then have notin: "''Churn'' \<notin> set (high_corr_cols corr t)"
    by (simp add: high_corr_cols_def Let_def)
  have "drop_columns (high_corr_cols corr t) t = Inr (without (high_corr_cols corr t) t)"
    using high_corr_cols_names by (rule drop_columns_ok)
  moreover have "(''Churn'', c) \<in> set (columns (without (high_corr_cols corr t) t))"
    if "(''Churn'', c) \<in> set (columns t)" for c
    using that notin by (simp add: without_def)
  ultimately show ?thesis
    using notin by blast
qed

subsection \<open>Witnesses and counterexamples for the pruning script\<close>

lemma wf_ex_retail: "wf_table ex_retail"
  by (simp add: wf_table_def ex_retail_def)

lemma data_cleaned_ex:
  "data_cleaned ex_corr ex_retail =
     Inr \<lparr>nrows = 3, columns =
           [(''Age'', Column Numeric [Num 30, Num 41, Num 52]),
            (''City'', Column Object [Str ''Tunis'', NaN, Str ''Sfax'']),
            (''Churn'', Column Numeric [Num 0, Num 1, Num 1])]\<rparr>"
  by code_simp

text \<open>C4, witness: the six-column example, of which three columns survive.\<close>

theorem prune_subset_rows_witness:
  "wf_table ex_retail \<and>
   (\<exists>out. data_cleaned ex_corr ex_retail = Inr out \<and>
           map fst (columns out) = [''Age'', ''City'', ''Churn''] \<and>
           nrows out = nrows ex_retail \<and>
           subseq (columns out) (columns ex_retail) \<and>
           set (columns out) \<subseteq> set (columns ex_retail) \<and>
           set (map fst (columns out)) \<subseteq> set (map fst (columns ex_retail)) \<and>
           wf_table out)"
proof -
  from prune_subset_rows [OF wf_ex_retail, of ex_corr]
  obtain out where out: "data_cleaned ex_corr ex_retail = Inr out"
    "nrows out = nrows ex_retail"
    "subseq (columns out) (columns ex_retail)"
    "set (columns out) \<subseteq> set (columns ex_retail)"
    "set (map fst (columns out)) \<subseteq> set (map fst (columns ex_retail))"
    "wf_table out"
    by blast
  from out(1) [unfolded data_cleaned_ex]
  have eq: "out = \<lparr>nrows = 3, columns =
           [(''Age'', Column Numeric [Num 30, Num 41, Num 52]),
            (''City'', Column Object [Str ''Tunis'', NaN, Str ''Sfax'']),
            (''Churn'', Column Numeric [Num 0, Num 1, Num 1])]\<rparr>"
    by (simp only: sum.inject)
  have names: "map fst (columns out) = [''Age'', ''City'', ''Churn'']"
    by (simp add: eq)
  show ?thesis
  proof (intro conjI exI)
    show "wf_table ex_retail" by (rule wf_ex_retail)
    show "data_cleaned ex_corr ex_retail = Inr out" by (rule out(1))
    show "map fst (columns out) = [''Age'', ''City'', ''Churn'']" by (rule names)
    show "nrows out = nrows ex_retail" by (rule out(2))
    show "subseq (columns out) (columns ex_retail)" by (rule out(3))
    show "set (columns out) \<subseteq> set (columns ex_retail)" by (rule out(4))
    show "set (map fst (columns out)) \<subseteq> set (map fst (columns ex_retail))" by (rule out(5))
    show "wf_table out" by (rule out(6))
  qed
qed

lemma preprocessing_ex:
  "preprocessing ex_corr [ex_full] ex_retail =
     Inr \<lparr>heap = [ex_full, ex_retail,
                  \<lparr>nrows = 3, columns =
                     [(''Age'', Column Numeric [Num 30, Num 41, Num 52]),
                      (''City'', Column Object [Str ''Tunis'', NaN, Str ''Sfax'']),
                      (''Churn'', Column Numeric [Num 0, Num 1, Num 1])]\<rparr>],
          var_df = 1, var_df_clean = 2\<rparr>"
  by code_simp


text \<open>C5, witness: the script run on the six-column example in a store that already
  holds another table.\<close>

theorem preprocessing_frame_witness:
  "wf_table ex_retail \<and>
   (\<exists>st. preprocessing ex_corr [ex_full] ex_retail = Inr st \<and>
           heap st ! var_df st = ex_retail \<and>
           var_df_clean st \<noteq> var_df st \<and>
           heap st ! 0 = ex_full \<and>
           map fst (columns (heap st ! var_df_clean st)) = [''Age'', ''City'', ''Churn''])"
proof -
  from preprocessing_frame [OF wf_ex_retail, of ex_corr "[ex_full]"]
  obtain st where st: "preprocessing ex_corr [ex_full] ex_retail = Inr st"
    "heap st ! var_df st = ex_retail" "var_df_clean st \<noteq> var_df st" "heap st ! 0 = ex_full"
    by auto
  from st(1) [unfolded preprocessing_ex]
  have eq: "st = \<lparr>heap = [ex_full, ex_retail,
                  \<lparr>nrows = 3, columns =
                     [(''Age'', Column Numeric [Num 30, Num 41, Num 52]),
                      (''City'', Column Object [Str ''Tunis'', NaN, Str ''Sfax'']),
                      (''Churn'', Column Numeric [Num 0, Num 1, Num 1])]\<rparr>],
          var_df = 1, var_df_clean = 2\<rparr>"
    by (simp only: sum.inject)
  have names: "map fst (columns (heap st ! var_df_clean st)) = [''Age'', ''City'', ''Churn'']"
    by (simp add: eq)
  show ?thesis
  proof (intro conjI exI)
    show "wf_table ex_retail" by (rule wf_ex_retail)
    show "preprocessing ex_corr [ex_full] ex_retail = Inr st" by (rule st(1))
    show "heap st ! var_df st = ex_retail" by (rule st(2))
    show "var_df_clean st \<noteq> var_df st" by (rule st(3))
    show "heap st ! 0 = ex_full" by (rule st(4))
    show "map fst (columns (heap st ! var_df_clean st)) = [''Age'', ''City'', ''Churn'']"
      by (rule names)
  qed
qed

lemma wf_ex_empty: "wf_table ex_empty"
  by (simp add: wf_table_def ex_empty_def)

text \<open>C6, witness: a table with a header and no row, and a table of two string columns.\<close>

theorem prune_empty_input_witness:
  "wf_table ex_empty \<and> nrows ex_empty = 0 \<and>
   data_cleaned ex_corr ex_empty = Inr \<lparr>nrows = 0, columns = []\<rparr> \<and>
   list_all (\<lambda>(name, c). col_dtype c \<noteq> Numeric) (columns ex_objects) \<and>
   high_corr_cols ex_corr ex_objects = [] \<and>
   drop_columns (high_corr_cols ex_corr ex_objects) ex_objects = Inr ex_objects"
proof -
  have z: "nrows ex_empty = 0"
    by (simp add: ex_empty_def)
  have o: "list_all (\<lambda>(name, c). col_dtype c \<noteq> Numeric) (columns ex_objects)"
    by (simp add: ex_objects_def)
  note inst = prune_empty_input [where raw = ex_empty and t = ex_objects and corr = ex_corr]
  from inst wf_ex_empty z
  have a: "data_cleaned ex_corr ex_empty = Inr \<lparr>nrows = 0, columns = []\<rparr>"
    by metis
  from inst o
  have b: "high_corr_cols ex_corr ex_objects = [] \<and>
           drop_columns (high_corr_cols ex_corr ex_objects) ex_objects = Inr ex_objects"
    by blast
  from wf_ex_empty z a o b show ?thesis
    by blast
qed

text \<open>C8, witness: the six-column example.\<close>

theorem prune_idempotent_witness:
  "wf_table ex_retail \<and>
   (\<exists>out. data_cleaned ex_corr ex_retail = Inr out \<and>
           constant_cols out = [] \<and> quasi_const_cols out = [] \<and> cols_trop_nan out = [] \<and>
           (\<forall>(name, c) \<in> set (columns out).
               2 \<le> nunique c \<and>
               (\<forall>v \<in> set (notna_vals c).
                   real (count_list (notna_vals c) v) / real (length (notna_vals c)) \<le> 0.95) \<and>
               real (isna_sum c) / real (nrows out) \<le> 0.4))"
  using prune_idempotent [OF wf_ex_retail, of ex_corr] wf_ex_retail by blast

lemma distinct_ex_retail: "distinct (map fst (columns ex_retail))"
  by (simp add: ex_retail_def)

lemma flagged_ex_retail: "high_corr_flagged ex_corr ex_retail = [''Age'', ''Spend'', ''Churn'']"
  by code_simp

text \<open>C3, witness: in the six-column example \<^verbatim>\<open>"Churn"\<close> is perfectly correlated with
  the numeric columns before it and is flagged by the comprehension, yet it is not in the
  final removal list and survives the \<^verbatim>\<open>drop\<close>.\<close>

theorem churn_protected_witness:
  "distinct (map fst (columns ex_retail)) \<and>
   ''Churn'' \<in> set (high_corr_flagged ex_corr ex_retail) \<and>
   ''Churn'' \<notin> set (high_corr_cols ex_corr ex_retail) \<and>
   (\<exists>t'. drop_columns (high_corr_cols ex_corr ex_retail) ex_retail = Inr t' \<and>
         (''Churn'', Column Numeric [Num 0, Num 1, Num 1]) \<in> set (columns t'))"
proof -
  have m: "(''Churn'', Column Numeric [Num 0, Num 1, Num 1]) \<in> set (columns ex_retail)"
    by (simp add: ex_retail_def)
  have f: "''Churn'' \<in> set (high_corr_flagged ex_corr ex_retail)"
    by (simp add: flagged_ex_retail)
  show ?thesis
    using churn_protected [OF distinct_ex_retail, of ex_corr] distinct_ex_retail m f by blast
qed

lemma count_list_replicate: "count_list (replicate n x) y = (if x = y then n else 0)"
  by (induction n) auto

lemma wf_ex_quasi: "wf_table ex_quasi"
  by (simp add: wf_table_def ex_quasi_def ex_promo_def ex_gift_def)

text \<open>C2, witness: of two columns of 100 rows with no missing value, the one whose most
  frequent value is on 96 rows is listed and the one where it is on 95 rows is not.\<close>

theorem quasi_const_cols_iff_witness:
  "wf_table ex_quasi \<and>
   (''Promo'', ex_promo) \<in> set (columns ex_quasi) \<and> list_all (\<lambda>v. \<not> isna v) (vals ex_promo) \<and>
   (''Gift'', ex_gift) \<in> set (columns ex_quasi) \<and> list_all (\<lambda>v. \<not> isna v) (vals ex_gift) \<and>
   ''Promo'' \<in> set (quasi_const_cols ex_quasi) \<and>
   ''Gift'' \<notin> set (quasi_const_cols ex_quasi)"
proof -
  have p: "(''Promo'', ex_promo) \<in> set (columns ex_quasi) \<and> list_all (\<lambda>v. \<not> isna v) (vals ex_promo)"
    by (simp add: ex_quasi_def ex_promo_def list_all_iff)
  have g: "(''Gift'', ex_gift) \<in> set (columns ex_quasi) \<and> list_all (\<lambda>v. \<not> isna v) (vals ex_gift)"
    by (simp add: ex_quasi_def ex_gift_def list_all_iff)
  have sp: "\<exists>v\<in>set (vals ex_promo). 0.95 < real (count_list (vals ex_promo) v) / real (nrows ex_quasi)"
    by (simp add: ex_promo_def ex_quasi_def count_list_replicate)
  have sg: "\<not> (\<exists>v\<in>set (vals ex_gift). 0.95 < real (count_list (vals ex_gift) v) / real (nrows ex_quasi))"
    by (simp add: ex_gift_def ex_quasi_def count_list_replicate)
  from quasi_const_cols_iff [of "''Promo''" ex_quasi ex_promo] wf_ex_quasi p sp
  have 1: "''Promo'' \<in> set (quasi_const_cols ex_quasi)" by blast
  from quasi_const_cols_iff [of "''Gift''" ex_quasi ex_gift] wf_ex_quasi g sg
  have 2: "''Gift'' \<notin> set (quasi_const_cols ex_quasi)" by blast
  from wf_ex_quasi p g 1 2 show ?thesis by blast
qed

text \<open>C2, counterexample to the claim as stated: a column of 22 rows, which the
  constant-column filter keeps, is listed by the quasi-constant filter although its most
  frequent value covers only 20 of the 22 rows; it covers 20 of the 21 non-missing
  values.\<close>

theorem quasi_const_cols_counterexample:
  "wf_table ex_quasi_nan \<and> constant_cols ex_quasi_nan = [] \<and>
   ''Flag'' \<in> set (quasi_const_cols ex_quasi_nan) \<and>
   \<not> spec_quasi_constant ex_flag"
  by code_simp

subsection \<open>detecter\_outliers and afficher\_distribution\<close>

lemma map_of_columns:
  "wf_table df \<Longrightarrow> map_of (columns df) colonne = Some c \<longleftrightarrow> (colonne, c) \<in> set (columns df)"
  by (simp add: wf_table_def)

lemma detecter_outliers_None:
  "map_of (columns df) colonne = None \<Longrightarrow> detecter_outliers quantile df colonne = Inl ValueError"
  by (simp add: detecter_outliers_def)

lemma detecter_outliers_Object:
  "map_of (columns df) colonne = Some c \<Longrightarrow> \<not> is_numeric_dtype c \<Longrightarrow>
   detecter_outliers quantile df colonne = Inl TypeError"
  by (simp add: detecter_outliers_def)

lemma detecter_outliers_raise1:
  "map_of (columns df) colonne = Some c \<Longrightarrow> is_numeric_dtype c \<Longrightarrow>
   quantile c 0.25 = Inl e \<Longrightarrow> detecter_outliers quantile df colonne = Inl e"
  by (simp add: detecter_outliers_def)

lemma detecter_outliers_raise3:
  "map_of (columns df) colonne = Some c \<Longrightarrow> is_numeric_dtype c \<Longrightarrow>
   quantile c 0.25 = Inr Q1 \<Longrightarrow> quantile c 0.75 = Inl e \<Longrightarrow>
   detecter_outliers quantile df colonne = Inl e"
  by (simp add: detecter_outliers_def)

lemma detecter_outliers_value:
  assumes "map_of (columns df) colonne = Some c" and "is_numeric_dtype c"
    and "quantile c 0.25 = Inr Q1" and "quantile c 0.75 = Inr Q3"
  shows "detecter_outliers quantile df colonne =
     Inr (length (filter
            (\<lambda>i. map (\<lambda>v. cell_lt v (float_op fsub Q1 (float_op fmul (Some 1.5) (float_op fsub Q3 Q1))) \<or>
                           cell_gt v (float_op fadd Q3 (float_op fmul (Some 1.5) (float_op fsub Q3 Q1))))
                     (vals c) ! i)
            [0..<length (map (\<lambda>v. cell_lt v (float_op fsub Q1 (float_op fmul (Some 1.5) (float_op fsub Q3 Q1))) \<or>
                           cell_gt v (float_op fadd Q3 (float_op fmul (Some 1.5) (float_op fsub Q3 Q1))))
                     (vals c))]),
          float_op fsub Q1 (float_op fmul (Some 1.5) (float_op fsub Q3 Q1)),
          float_op fadd Q3 (float_op fmul (Some 1.5) (float_op fsub Q3 Q1)))"
  using assms by (simp add: detecter_outliers_def Let_def)

lemma afficher_distribution_None:
  "map_of (columns df) colonne = None \<Longrightarrow>
   afficher_distribution draw df colonne bins = Inl ValueError"
  by (simp add: afficher_distribution_def)

lemma afficher_distribution_Object:
  "map_of (columns df) colonne = Some c \<Longrightarrow> \<not> is_numeric_dtype c \<Longrightarrow>
   afficher_distribution draw df colonne bins = Inl TypeError"
  by (simp add: afficher_distribution_def)

lemma afficher_distribution_Numeric:
  "map_of (columns df) colonne = Some c \<Longrightarrow> is_numeric_dtype c \<Longrightarrow>
   afficher_distribution draw df colonne bins =
     (case draw c bins of Some e \<Rightarrow> Inl e | None \<Rightarrow> Inr ())"
  by (simp add: afficher_distribution_def)

text \<open>
  C7 (as the code has it). For every Table and column name, \<open>detecter_outliers\<close> and
  \<open>afficher_distribution\<close> raise \<^verbatim>\<open>ValueError\<close> (ColumnNotFound) when the name is not a
  column of the Table, and \<^verbatim>\<open>TypeError\<close> (NotNumeric) when the column is present and
  fails \<^verbatim>\<open>is_numeric_dtype\<close>; both are raised before any library call, whatever the
  library would do. On a present column that passes the test (int64, float64 or boolean)
  the helpers raise nothing themselves: an exception of a library call made after the
  checks (\<^verbatim>\<open>quantile\<close>, the drawing) reaches the caller as it is, and when these calls
  raise nothing the helper returns.
\<close>

theorem helper_errors:
  assumes "wf_table df"
  shows
    "(colonne \<notin> set (map fst (columns df)) \<longrightarrow>
        detecter_outliers quantile df colonne = Inl ValueError \<and>
        afficher_distribution draw df colonne bins = Inl ValueError) \<and>
     (\<forall>c. (colonne, c) \<in> set (columns df) \<and> \<not> is_numeric_dtype c \<longrightarrow>
        detecter_outliers quantile df colonne = Inl TypeError \<and>
        afficher_distribution draw df colonne bins = Inl TypeError) \<and>
     (\<forall>c. (colonne, c) \<in> set (columns df) \<and> is_numeric_dtype c \<longrightarrow>
        afficher_distribution draw df colonne bins =
          (case draw c bins of Some e \<Rightarrow> Inl e | None \<Rightarrow> Inr ()) \<and>
        (\<forall>e. quantile c 0.25 = Inl e \<longrightarrow>
            detecter_outliers quantile df colonne = Inl e) \<and>
        (\<forall>Q1 e. quantile c 0.25 = Inr Q1 \<and> quantile c 0.75 = Inl e \<longrightarrow>
            detecter_outliers quantile df colonne = Inl e) \<and>
        (\<forall>Q1 Q3. quantile c 0.25 = Inr Q1 \<and> quantile c 0.75 = Inr Q3 \<longrightarrow>
            (\<exists>res. detecter_outliers quantile df colonne = Inr res)))"
proof (intro conjI impI allI)
  assume "colonne \<notin> set (map fst (columns df))"
  then have none: "map_of (columns df) colonne = None"
    by (simp add: map_of_eq_None_iff)
  from none show "detecter_outliers quantile df colonne = Inl ValueError"
    by (rule detecter_outliers_None)
  from none show "afficher_distribution draw df colonne bins = Inl ValueError"
    by (rule afficher_distribution_None)
next
  fix c assume a: "(colonne, c) \<in> set (columns df) \<and> \<not> is_numeric_dtype c"
  with assms have look: "map_of (columns df) colonne = Some c"
    by (simp add: map_of_columns)
  from look a show "detecter_outliers quantile df colonne = Inl TypeError"
    by (simp add: detecter_outliers_Object)
  from look a show "afficher_distribution draw df colonne bins = Inl TypeError"
    by (simp add: afficher_distribution_Object)
next
  fix c assume a: "(colonne, c) \<in> set (columns df) \<and> is_numeric_dtype c"
  with assms have look: "map_of (columns df) colonne = Some c"
    by (simp add: map_of_columns)
  from look a show "afficher_distribution draw df colonne bins =
          (case draw c bins of Some e \<Rightarrow> Inl e | None \<Rightarrow> Inr ())"
    by (simp add: afficher_distribution_Numeric)
  {
    fix e assume "quantile c 0.25 = Inl e"
    with look a show "detecter_outliers quantile df colonne = Inl e"
      by (simp add: detecter_outliers_raise1)
  }
  {
    fix Q1 e assume "quantile c 0.25 = Inr Q1 \<and> quantile c 0.75 = Inl e"
    with look a show "detecter_outliers quantile df colonne = Inl e"
      by (simp add: detecter_outliers_raise3)
  }
  {
    fix Q1 Q3 assume "quantile c 0.25 = Inr Q1 \<and> quantile c 0.75 = Inr Q3"
    with look a show "\<exists>res. detecter_outliers quantile df colonne = Inr res"
      by (simp add: detecter_outliers_value)
  }
qed

lemma length_filter_upt: "length (filter P [0..<n]) = card {i. i < n \<and> P i}"
proof -
  have "distinct (filter P [0..<n])"
    by simp
  then have "length (filter P [0..<n]) = card (set (filter P [0..<n]))"
    by (rule distinct_card [symmetric])
  also have "set (filter P [0..<n]) = {i. i < n \<and> P i}"
    by auto
  finally show ?thesis .
qed

lemma float_lt_iff: "float_lt a b \<longleftrightarrow> (\<exists>x y. a = Some x \<and> b = Some y \<and> x < y)"
  by (cases "(a, b)" rule: float_lt.cases) auto

lemma count_mask:
  "length (filter (\<lambda>i. map (\<lambda>v. cell_lt v lo \<or> cell_gt v hi) vs ! i)
             [0..<length (map (\<lambda>v. cell_lt v lo \<or> cell_gt v hi) vs)]) =
   card {i. i < length vs \<and>
            (\<exists>x. to_float64 (vs ! i) = Some x \<and>
                 ((\<exists>l. lo = Some l \<and> x < l) \<or> (\<exists>h. hi = Some h \<and> h < x)))}"
proof -
  have "{i. i < length vs \<and> map (\<lambda>v. cell_lt v lo \<or> cell_gt v hi) vs ! i} =
        {i. i < length vs \<and>
            (\<exists>x. to_float64 (vs ! i) = Some x \<and>
                 ((\<exists>l. lo = Some l \<and> x < l) \<or> (\<exists>h. hi = Some h \<and> h < x)))}"
    by (auto simp: cell_lt_def cell_gt_def float_lt_iff)
  then show ?thesis
    by (simp add: length_filter_upt)
qed

text \<open>
  C10 (as the code has it). For a column of the Table with an int64 or float64 dtype on
  which \<^verbatim>\<open>quantile\<close> returns, \<open>detecter_outliers\<close> returns a count and two bounds, and the
  count is the number of rows whose value, converted to float64, is strictly below the
  lower bound or strictly above the upper bound. So a value that equals a bound after
  the conversion is not counted, and neither is a row whose value is missing. The bounds
  are \<open>Q1 - 1.5 * IQR\<close> and \<open>Q3 + 1.5 * IQR\<close> with \<open>IQR = Q3 - Q1\<close>, each operation rounded to
  float64.
\<close>

theorem detecter_outliers_count:
  assumes "wf_table df" and "(colonne, c) \<in> set (columns df)" and "col_dtype c = Numeric"
    and "quantile c 0.25 = Inr Q1" and "quantile c 0.75 = Inr Q3"
  shows "\<exists>n lo hi. detecter_outliers quantile df colonne = Inr (n, lo, hi) \<and>
           n = card {i. i < nrows df \<and>
                       (\<exists>x. to_float64 (vals c ! i) = Some x \<and>
                            ((\<exists>l. lo = Some l \<and> x < l) \<or> (\<exists>h. hi = Some h \<and> h < x)))} \<and>
           lo = float_op fsub Q1 (float_op fmul (Some 1.5) (float_op fsub Q3 Q1)) \<and>
           hi = float_op fadd Q3 (float_op fmul (Some 1.5) (float_op fsub Q3 Q1))"
proof -
  from assms have look: "map_of (columns df) colonne = Some c"
    by (simp add: map_of_columns)
  from assms have num: "is_numeric_dtype c"
    by (simp add: is_numeric_dtype_def)
  from assms have len: "length (vals c) = nrows df"
    by (auto simp: wf_table_def list_all_iff)
  let ?lo = "float_op fsub Q1 (float_op fmul (Some 1.5) (float_op fsub Q3 Q1))"
  let ?hi = "float_op fadd Q3 (float_op fmul (Some 1.5) (float_op fsub Q3 Q1))"
  let ?n = "length (filter (\<lambda>i. map (\<lambda>v. cell_lt v ?lo \<or> cell_gt v ?hi) (vals c) ! i)
             [0..<length (map (\<lambda>v. cell_lt v ?lo \<or> cell_gt v ?hi) (vals c))])"
  have res: "detecter_outliers quantile df colonne = Inr (?n, ?lo, ?hi)"
    using look num assms(4,5) by (rule detecter_outliers_value)
  have cnt: "?n = card {i. i < nrows df \<and>
                       (\<exists>x. to_float64 (vals c ! i) = Some x \<and>
                            ((\<exists>l. ?lo = Some l \<and> x < l) \<or> (\<exists>h. ?hi = Some h \<and> h < x)))}"
    using count_mask [of ?lo ?hi "vals c"] len by (simp only:)
  show ?thesis
  proof (intro exI conjI)
    show "detecter_outliers quantile df colonne = Inr (?n, ?lo, ?hi)" by (rule res)
    show "?n = card {i. i < nrows df \<and>
                       (\<exists>x. to_float64 (vals c ! i) = Some x \<and>
                            ((\<exists>l. ?lo = Some l \<and> x < l) \<or> (\<exists>h. ?hi = Some h \<and> h < x)))}"
      by (rule cnt)
    show "?lo = ?lo" by (rule refl)
    show "?hi = ?hi" by (rule refl)
  qed
qed

subsection \<open>analyser\_correlation\<close>











subsection \<open>Witnesses for the helpers\<close>

lemma wf_ex_outliers: "wf_table ex_outliers"
  by (simp add: wf_table_def ex_outliers_def ex_amount_def)

lemma detecter_outliers_ex:
  "detecter_outliers ex_quantile ex_outliers ''Amount'' = Inr (1, Some (- 2), Some 6)"
  by code_simp

lemma afficher_distribution_ex:
  "ex_draw ex_amount 30 = None"
  by code_simp

text \<open>C7, witness: a missing name, a string column and a numeric column of one table.\<close>

theorem helper_errors_witness:
  "wf_table ex_outliers \<and>
   ''Nope'' \<notin> set (map fst (columns ex_outliers)) \<and>
   detecter_outliers ex_quantile ex_outliers ''Nope'' = Inl ValueError \<and>
   afficher_distribution ex_draw ex_outliers ''Nope'' 30 = Inl ValueError \<and>
   (''City'', Column Object (replicate 12 (Str ''Tunis''))) \<in> set (columns ex_outliers) \<and>
   \<not> is_numeric_dtype (Column Object (replicate 12 (Str ''Tunis''))) \<and>
   detecter_outliers ex_quantile ex_outliers ''City'' = Inl TypeError \<and>
   afficher_distribution ex_draw ex_outliers ''City'' 30 = Inl TypeError \<and>
   (''Amount'', ex_amount) \<in> set (columns ex_outliers) \<and> is_numeric_dtype ex_amount \<and>
   afficher_distribution ex_draw ex_outliers ''Amount'' 30 = Inr () \<and>
   (\<exists>res. detecter_outliers ex_quantile ex_outliers ''Amount'' = Inr res)"
proof -
  note inst = helper_errors [OF wf_ex_outliers, where quantile = ex_quantile and draw = ex_draw
      and bins = 30]
  have absent: "''Nope'' \<notin> set (map fst (columns ex_outliers))"
    by (simp add: ex_outliers_def)
  have city: "(''City'', Column Object (replicate 12 (Str ''Tunis''))) \<in> set (columns ex_outliers)"
    by (simp add: ex_outliers_def)
  have obj: "\<not> is_numeric_dtype (Column Object (replicate 12 (Str ''Tunis'')))"
    by (simp add: is_numeric_dtype_def)
  have amount: "(''Amount'', ex_amount) \<in> set (columns ex_outliers)"
    by (simp add: ex_outliers_def)
  have num: "is_numeric_dtype ex_amount"
    by (simp add: ex_amount_def is_numeric_dtype_def)
  have q1: "ex_quantile ex_amount 0.25 = Inr (Some 1)"
    by code_simp
  have q3: "ex_quantile ex_amount 0.75 = Inr (Some 3)"
    by code_simp
  from inst [where colonne = "''Nope''", THEN conjunct1] absent
  have 1: "detecter_outliers ex_quantile ex_outliers ''Nope'' = Inl ValueError"
    "afficher_distribution ex_draw ex_outliers ''Nope'' 30 = Inl ValueError"
    by blast+
  from inst [where colonne = "''City''", THEN conjunct2, THEN conjunct1, rule_format, OF conjI, OF city obj]
  have 2: "detecter_outliers ex_quantile ex_outliers ''City'' = Inl TypeError"
    "afficher_distribution ex_draw ex_outliers ''City'' 30 = Inl TypeError"
    by blast+
  note a = inst [where colonne = "''Amount''", THEN conjunct2, THEN conjunct2, rule_format,
      OF conjI, OF amount num]
  from a have "afficher_distribution ex_draw ex_outliers ''Amount'' 30 =
      (case ex_draw ex_amount 30 of Some e \<Rightarrow> Inl e | None \<Rightarrow> Inr ())"
    by (rule conjunct1)
  then have 3: "afficher_distribution ex_draw ex_outliers ''Amount'' 30 = Inr ()"
    by (simp add: afficher_distribution_ex)
  from a q1 q3 have 4: "\<exists>res. detecter_outliers ex_quantile ex_outliers ''Amount'' = Inr res"
    by blast
  show ?thesis
  proof (intro conjI)
    show "wf_table ex_outliers" by (rule wf_ex_outliers)
    show "''Nope'' \<notin> set (map fst (columns ex_outliers))" by (rule absent)
    show "detecter_outliers ex_quantile ex_outliers ''Nope'' = Inl ValueError" by (rule 1(1))
    show "afficher_distribution ex_draw ex_outliers ''Nope'' 30 = Inl ValueError" by (rule 1(2))
    show "(''City'', Column Object (replicate 12 (Str ''Tunis''))) \<in> set (columns ex_outliers)"
      by (rule city)
    show "\<not> is_numeric_dtype (Column Object (replicate 12 (Str ''Tunis'')))" by (rule obj)
    show "detecter_outliers ex_quantile ex_outliers ''City'' = Inl TypeError" by (rule 2(1))
    show "afficher_distribution ex_draw ex_outliers ''City'' 30 = Inl TypeError" by (rule 2(2))
    show "(''Amount'', ex_amount) \<in> set (columns ex_outliers)" by (rule amount)
    show "is_numeric_dtype ex_amount" by (rule num)
    show "afficher_distribution ex_draw ex_outliers ''Amount'' 30 = Inr ()" by (rule 3)
    show "\<exists>res. detecter_outliers ex_quantile ex_outliers ''Amount'' = Inr res" by (rule 4)
  qed
qed

text \<open>C7, counterexample to the claim as stated: \<^verbatim>\<open>ValueError\<close> is raised for a column
  that is present and numeric, when the histogram is asked for zero bins; and
  \<^verbatim>\<open>TypeError\<close> is raised for a boolean column, which is present and passes
  \<^verbatim>\<open>is_numeric_dtype\<close>, by \<^verbatim>\<open>quantile\<close>.\<close>

theorem helper_errors_counterexample:
  "''Amount'' \<in> set (map fst (columns ex_outliers)) \<and>
   afficher_distribution ex_draw ex_outliers ''Amount'' 0 = Inl ValueError \<and>
   (''Active'', ex_active) \<in> set (columns ex_flags) \<and> is_numeric_dtype ex_active \<and>
   detecter_outliers ex_quantile ex_flags ''Active'' = Inl TypeError"
  by code_simp

text \<open>The example of the specification: for 1, ..., 9, 100 the quartiles are 3.25 and
  7.75, the bounds -3.5 and 14.5, and there is one outlier.\<close>

lemma quantile_spec_example:
  "detecter_outliers ex_quantile \<lparr>nrows = 10, columns =
      [(''x'', Column Numeric [Num 1, Num 2, Num 3, Num 4, Num 5, Num 6, Num 7, Num 8, Num 9, Num 100])]\<rparr> ''x''
   = Inr (1, Some (- 3.5), Some 14.5)"
  by code_simp

text \<open>Rounding decides on ordinary data: for the float64 values nearest to 1.1, 1.2, 1.0
  and 1.1 the bounds are one step above 1 and one step below the float64 nearest to 1.2,
  so that the values 1.0 and 1.2 are counted.\<close>

lemma detecter_outliers_rounding_example:
  "detecter_outliers ex_quantile \<lparr>nrows = 4, columns =
      [(''x'', Column Numeric [Num 1.1, Num 1.2, Num 1.0, Num 1.1])]\<rparr> ''x''
   = Inr (2, Some (1 + 1 / 2 ^ 51), Some (float64 1.2 - 1 / 2 ^ 52))"
  by code_simp

text \<open>C10, witness: the column holds both bounds, -2 and 6, a missing value and the
  value 7; the count is 1.\<close>

theorem detecter_outliers_count_witness:
  "wf_table ex_outliers \<and> (''Amount'', ex_amount) \<in> set (columns ex_outliers) \<and>
   col_dtype ex_amount = Numeric \<and>
   ex_quantile ex_amount 0.25 = Inr (Some 1) \<and> ex_quantile ex_amount 0.75 = Inr (Some 3) \<and>
   detecter_outliers ex_quantile ex_outliers ''Amount'' = Inr (1, Some (- 2), Some 6) \<and>
   1 = card {i. i < nrows ex_outliers \<and>
               (\<exists>x. to_float64 (vals ex_amount ! i) = Some x \<and>
                    ((\<exists>l. Some (- 2) = Some l \<and> x < l) \<or> (\<exists>h. Some 6 = Some h \<and> h < x)))}"
proof -
  have mem: "(''Amount'', ex_amount) \<in> set (columns ex_outliers)"
    by (simp add: ex_outliers_def)
  have num: "col_dtype ex_amount = Numeric"
    by (simp add: ex_amount_def)
  have q1: "ex_quantile ex_amount 0.25 = Inr (Some 1)"
    by code_simp
  have q3: "ex_quantile ex_amount 0.75 = Inr (Some 3)"
    by code_simp
  from detecter_outliers_count [where quantile = ex_quantile, OF wf_ex_outliers mem num q1 q3]
  obtain n lo hi where r: "detecter_outliers ex_quantile ex_outliers ''Amount'' = Inr (n, lo, hi)"
    and cnt: "n = card {i. i < nrows ex_outliers \<and>
               (\<exists>x. to_float64 (vals ex_amount ! i) = Some x \<and>
                    ((\<exists>l. lo = Some l \<and> x < l) \<or> (\<exists>h. hi = Some h \<and> h < x)))}"
    by blast
  from r detecter_outliers_ex have "n = 1" "lo = Some (- 2)" "hi = Some 6"
    by simp_all
  with cnt
  have c1: "1 = card {i. i < nrows ex_outliers \<and>
               (\<exists>x. to_float64 (vals ex_amount ! i) = Some x \<and>
                    ((\<exists>l. Some (- 2) = Some l \<and> x < l) \<or> (\<exists>h. Some 6 = Some h \<and> h < x)))}"
    by (simp only:)
  show ?thesis
  proof (intro conjI)
    show "wf_table ex_outliers" by (rule wf_ex_outliers)
    show "(''Amount'', ex_amount) \<in> set (columns ex_outliers)" by (rule mem)
    show "col_dtype ex_amount = Numeric" by (rule num)
    show "ex_quantile ex_amount 0.25 = Inr (Some 1)" by (rule q1)
    show "ex_quantile ex_amount 0.75 = Inr (Some 3)" by (rule q3)
    show "detecter_outliers ex_quantile ex_outliers ''Amount'' = Inr (1, Some (- 2), Some 6)"
      by (rule detecter_outliers_ex)
    show "1 = card {i. i < nrows ex_outliers \<and>
               (\<exists>x. to_float64 (vals ex_amount ! i) = Some x \<and>
                    ((\<exists>l. Some (- 2) = Some l \<and> x < l) \<or> (\<exists>h. Some 6 = Some h \<and> h < x)))}"
      by (rule c1)
  qed
qed

text \<open>C10, counterexample to the claim as stated: of five int64 values the last,
  \<open>2^53 + 1\<close>, lies strictly above the returned upper bound \<open>2^53\<close>, and the count is 0: the
  comparison sees the value converted to float64, which is \<open>2^53\<close>.\<close>

theorem detecter_outliers_count_counterexample:
  "wf_table ex_big \<and> (''Id'', ex_ids) \<in> set (columns ex_big) \<and> col_dtype ex_ids = Numeric \<and>
   detecter_outliers ex_quantile ex_big ''Id'' =
     Inr (0, Some 9007199254740992, Some 9007199254740992) \<and>
   spec_outlier_count ex_ids 9007199254740992 9007199254740992 = 1"
  by code_simp




subsection \<open>analyser\_nan\<close>

lemma isna_sum_zero: "list_all (\<lambda>v. \<not> isna v) (vals c) \<Longrightarrow> isna_sum c = 0"
  by (simp add: isna_sum_def list_all_iff)

lemma analyser_nan_no_missing_rows:
  assumes "no_missing df"
  shows "filter (\<lambda>(name, k, p). k > 0)
           (map (\<lambda>(name, k). (name, k, round_dec 2 (real k / real (nrows df) * 100)))
              (map (\<lambda>(name, c). (name, isna_sum c)) (columns df))) = []"
  using assms
  by (auto simp: no_missing_def list_all_iff filter_empty_conv isna_sum_def)

text \<open>
  C1 (as the code has it). For an empty Table \<open>analyser_nan\<close> returns \<open>None\<close>; for a
  non-empty Table with no missing value it returns a report with no row, \<open>Some []\<close>,
  which is a report object and differs from the \<open>None\<close> of the empty Table.
\<close>

theorem analyser_nan_no_missing:
  "(df_empty df \<longrightarrow> analyser_nan df = None) \<and>
   (\<not> df_empty df \<and> no_missing df \<longrightarrow> analyser_nan df = Some [])"
proof (intro conjI impI)
  assume "df_empty df"
  then show "analyser_nan df = None" by (simp add: analyser_nan_def)
next
  assume a: "\<not> df_empty df \<and> no_missing df"
  then have "filter (\<lambda>(name, k, p). k > 0)
           (map (\<lambda>(name, k). (name, k, round_dec 2 (real k / real (nrows df) * 100)))
              (map (\<lambda>(name, c). (name, isna_sum c)) (columns df))) = []"
    using analyser_nan_no_missing_rows by blast
  with a show "analyser_nan df = Some []"
    by (simp add: analyser_nan_def Let_def)
qed

text \<open>C1, witness: the empty table and a table of two full columns.\<close>

theorem analyser_nan_no_missing_witness:
  "df_empty ex_empty \<and> analyser_nan ex_empty = None \<and>
   \<not> df_empty ex_full \<and> no_missing ex_full \<and> analyser_nan ex_full = Some []"
  using analyser_nan_no_missing [of ex_empty] analyser_nan_no_missing [of ex_full]
  by (simp add: df_empty_def no_missing_def ex_empty_def ex_full_def)

text \<open>C1, counterexample to the claim as stated: on a non-empty table with no missing
  value the result is a report object (with no row), not the no-data signal.\<close>

theorem analyser_nan_no_missing_counterexample:
  "\<not> df_empty ex_full \<and> no_missing ex_full \<and>
   analyser_nan ex_full = Some [] \<and> analyser_nan ex_full \<noteq> None"
  by (simp add: df_empty_def no_missing_def analyser_nan_def isna_sum_def ex_full_def)

end
